theory Spec2Isabelle
  imports Complex_Main
begin

section \<open>Heart disease risk calculator: a model of \<open>streamlit_app.py\<close>\<close>

text \<open>
  The script is a single page that is executed from top to bottom on every user
  interaction. The model follows the script section by section: the Python values it
  computes with (strings, integers, floats), the exceptions it can raise, the elements it
  puts on the page, the cached model loader, the sidebar collector that builds the
  one-row data frame, and the prediction block.
\<close>

subsection \<open>Exceptions\<close>

text \<open>
  Every \<open>raise\<close> is a value. \<open>OtherException\<close> carries the class name of any exception
  the script does not name itself (what \<open>joblib.load\<close> or \<open>predict_proba\<close> may raise).
\<close>

datatype py_exception =
    FileNotFoundError
  | ValueError
  | IndexError
  | OverflowError
  | StreamlitAPIException
  | OtherException string

subsection \<open>Python strings: \<open>str\<close>, \<open>split\<close>, \<open>strip\<close>, \<open>int\<close>\<close>

text \<open>
  Strings are lists of characters. \<open>str_int\<close> is Python's \<open>str\<close> on an integer: the
  decimal digits, most significant first, with a leading minus sign for a negative one.
\<close>

definition digit_char :: "nat \<Rightarrow> char" where
  "digit_char d = ''0123456789'' ! d"

fun str_nat :: "nat \<Rightarrow> string" where
  "str_nat n = (if n < 10 then [digit_char n] else str_nat (n div 10) @ [digit_char (n mod 10)])"

declare str_nat.simps [simp del]


text \<open>
  \<open>s.split(sep)\<close> for a separator of one character: the segments between the
  occurrences of \<open>sep\<close>, in order. The result is never empty.
\<close>

fun split_char :: "char \<Rightarrow> string \<Rightarrow> string list" where
  "split_char sep [] = [[]]"
| "split_char sep (c # cs) =
     (if c = sep then [] # split_char sep cs
      else (case split_char sep cs of
              [] \<Rightarrow> [[c]]
            | seg # segs \<Rightarrow> (c # seg) # segs))"

text \<open>\<open>xs[-1]\<close>: the last element, \<open>IndexError\<close> on the empty list.\<close>

definition py_last :: "'a list \<Rightarrow> py_exception + 'a" where
  "py_last xs = (if xs = [] then Inl IndexError else Inr (last xs))"

text \<open>\<open>s.strip(chars)\<close>: drops the characters of \<open>chars\<close> from both ends.\<close>

definition strip_chars :: "string \<Rightarrow> string \<Rightarrow> string" where
  "strip_chars chars s =
     rev (dropWhile (\<lambda>c. c \<in> set chars) (rev (dropWhile (\<lambda>c. c \<in> set chars) s)))"

text \<open>
  \<open>int(s)\<close> in base ten: white space around the number is dropped, one sign may lead,
  and the digits may be grouped by single underscores. Anything else is a
  \<open>ValueError\<close>. The white space is the ASCII one (tab, line feed, vertical tab, form
  feed, carriage return, the four separators \<open>0x1c\<close> to \<open>0x1f\<close> and the blank); the
  interpreter's configurable limit on the number of digits is not part of the model.
\<close>

definition py_whitespace :: "string" where
  "py_whitespace =
     [CHR 0x09, CHR 0x0A, CHR 0x0B, CHR 0x0C, CHR 0x0D, CHR 0x1C, CHR 0x1D, CHR 0x1E,
      CHR 0x1F, CHR 0x20]"

definition digit_val :: "char \<Rightarrow> nat option" where
  "digit_val c =
     (let k = (of_char c :: nat) in if 48 \<le> k \<and> k \<le> 57 then Some (k - 48) else None)"

fun digits_value :: "nat \<Rightarrow> string \<Rightarrow> nat option" where
  "digits_value acc [] = Some acc"
| "digits_value acc [c] =
     (case digit_val c of None \<Rightarrow> None | Some v \<Rightarrow> Some (acc * 10 + v))"
| "digits_value acc (c # d # ds) =
     (if c = CHR ''_'' then
        (case digit_val d of None \<Rightarrow> None | Some v \<Rightarrow> digits_value (acc * 10 + v) ds)
      else
        (case digit_val c of None \<Rightarrow> None | Some v \<Rightarrow> digits_value (acc * 10 + v) (d # ds)))"

definition parse_digits :: "string \<Rightarrow> nat option" where
  "parse_digits s =
     (case s of
        [] \<Rightarrow> None
      | c # cs \<Rightarrow> (case digit_val c of None \<Rightarrow> None | Some v \<Rightarrow> digits_value v cs))"

definition py_int :: "string \<Rightarrow> py_exception + int" where
  "py_int s =
     (let t = strip_chars py_whitespace s in
      if t \<noteq> [] \<and> hd t = CHR ''-'' then
        (case parse_digits (tl t) of None \<Rightarrow> Inl ValueError | Some n \<Rightarrow> Inr (- int n))
      else if t \<noteq> [] \<and> hd t = CHR ''+'' then
        (case parse_digits (tl t) of None \<Rightarrow> Inl ValueError | Some n \<Rightarrow> Inr (int n))
      else
        (case parse_digits t of None \<Rightarrow> Inl ValueError | Some n \<Rightarrow> Inr (int n)))"

text \<open>
  The expression of lines 48 and 76, \<open>int(option.split("(")[-1].strip(")"))\<close>: the text
  after the last opening parenthesis, without closing parentheses at its ends, read as
  an integer.
\<close>

definition parse_code :: "string \<Rightarrow> py_exception + int" where
  "parse_code option =
     (case py_last (split_char CHR ''('' option) of
        Inl e \<Rightarrow> Inl e
      | Inr seg \<Rightarrow> py_int (strip_chars '')'' seg))"

subsection \<open>Python floats\<close>

text \<open>
  A float is an IEEE binary64 number. The model represents a finite float by the
  rational number it denotes; comparison of floats is then comparison of rationals.
  \<open>binary64\<close> rounds a rational to the nearest float, ties to the even significand,
  as the literal \<open>0.3\<close> and the product \<open>prediction_prob * 100\<close> are rounded; a result
  beyond the largest float is an infinity, written \<open>None\<close>. Not-a-number and the sign
  of zero are not represented.
\<close>

definition pow2 :: "int \<Rightarrow> rat" where
  "pow2 e = (if 0 \<le> e then 2 ^ nat e else 1 / 2 ^ nat (- e))"

definition round_half_even :: "rat \<Rightarrow> int" where
  "round_half_even x =
     (let f = \<lfloor>x\<rfloor>; r = x - of_int f in
      if r < 1 / 2 then f
      else if 1 / 2 < r then f + 1
      else if even f then f else f + 1)"

text \<open>\<open>bitlen n\<close> is the number of binary digits of a positive integer.\<close>

function bitlen :: "int \<Rightarrow> int" where
  "bitlen n = (if n \<le> 0 then 0 else 1 + bitlen (n div 2))"
  by pat_completeness auto
termination
  by (relation "measure nat") auto

declare bitlen.simps [simp del]

text \<open>\<open>ilog2 x\<close> is the integer \<open>e\<close> with \<open>2 ^ e \<le> x < 2 ^ (e + 1)\<close>, for \<open>x > 0\<close>.\<close>

definition ilog2 :: "rat \<Rightarrow> int" where
  "ilog2 x = (if 1 \<le> x then bitlen \<lfloor>x\<rfloor> - 1 else - bitlen (\<lceil>1 / x\<rceil> - 1))"

definition binary64 :: "rat \<Rightarrow> rat option" where
  "binary64 x =
     (if x = 0 then Some 0
      else
        let e = max (ilog2 \<bar>x\<bar>) (- 1022);
            ulp = pow2 (e - 52);
            y = of_int (round_half_even (x / ulp)) * ulp
        in if pow2 1024 \<le> \<bar>y\<bar> then None else Some y)"

text \<open>The product of two floats: the exact product, rounded.\<close>

definition float_mul :: "rat \<Rightarrow> rat \<Rightarrow> rat option" where
  "float_mul a b = binary64 (a * b)"

text \<open>
  \<open>int(x)\<close> on a float truncates towards zero; on an infinity it raises
  \<open>OverflowError\<close>.
\<close>

definition py_trunc :: "rat \<Rightarrow> int" where
  "py_trunc v = (if 0 \<le> v then \<lfloor>v\<rfloor> else \<lceil>v\<rceil>)"

definition int_of_float :: "rat option \<Rightarrow> py_exception + int" where
  "int_of_float x = (case x of None \<Rightarrow> Inl OverflowError | Some v \<Rightarrow> Inr (py_trunc v))"

text \<open>
  The format specification \<open>.1%\<close> of line 121: the float is multiplied by 100 (a float
  product), and the product is written with one decimal digit, rounded to the nearest
  with ties to even, followed by a percent sign.
\<close>

definition format_percent1 :: "rat \<Rightarrow> string" where
  "format_percent1 p =
     (case float_mul p 100 of
        None \<Rightarrow> (if p < 0 then ''-inf%'' else ''inf%'')
      | Some v \<Rightarrow>
          (let t = nat (round_half_even (\<bar>v\<bar> * 10)) in
           (if p < 0 then ''-'' else []) @ str_nat (t div 10) @ ''.'' @
           [digit_char (t mod 10)] @ ''%''))"

subsection \<open>The data frame\<close>

text \<open>
  A cell holds an integer or a float. \<open>DataFrame data idx\<close> is
  \<open>pd.DataFrame(data, index=idx)\<close> for a dictionary of scalars: the columns are the keys
  in the order of the dictionary, and every index label gets one row of the values.
\<close>

datatype cell = IntCell int | FloatCell rat

record dataframe =
  df_columns :: "string list"
  df_index :: "int list"
  df_rows :: "cell list list"

definition DataFrame :: "(string \<times> cell) list \<Rightarrow> int list \<Rightarrow> dataframe" where
  "DataFrame data idx =
     \<lparr>df_columns = map fst data, df_index = idx, df_rows = map (\<lambda>_. map snd data) idx\<rparr>"

text \<open>What a reader that goes by column name sees in the first row of a frame.\<close>

definition named_row :: "dataframe \<Rightarrow> (string \<times> cell) list" where
  "named_row df = (case df_rows df of [] \<Rightarrow> [] | r # _ \<Rightarrow> zip (df_columns df) r)"

subsection \<open>Page elements\<close>

datatype widget_kind = Slider | Selectbox | Radio

datatype element =
    PageConfig string string
  | Title string
  | Markdown string
  | SidebarHeader string
  | SidebarWidget widget_kind string
  | Subheader string
  | WriteFrame dataframe
  | WriteText string
  | Button string
  | Columns "element list" "element list"
  | Metric string string
  | ErrorBox string
  | SuccessBox string
  | Progress int
  | Caption string

text \<open>The heart emoji of lines 7 and 9 (U+1FAC0), as its four bytes in UTF-8.\<close>

definition heart_emoji :: string where
  "heart_emoji = [CHR 0xF0, CHR 0x9F, CHR 0xAB, CHR 0x80]"

definition newline :: string where
  "newline = [CHR 0x0A]"

definition apostrophe :: string where
  "apostrophe = [CHR 0x27]"

text \<open>Lines 7 to 13.\<close>

definition page_header :: "element list" where
  "page_header =
     [PageConfig ''Heart Risk Predictor'' heart_emoji,
      Title (heart_emoji @ '' Heart Disease Risk Calculator''),
      Markdown (newline @
        ''This tool uses a **Random Forest** machine learning model to estimate the risk of heart disease.'' @
        newline @ ''*Adjust the sliders in the sidebar to simulate a patient.*'' @ newline)]"

subsection \<open>The classifier artifact and its loader\<close>

text \<open>
  The artifact is opaque: the script tests its truth value (\<open>if model:\<close>) and calls
  \<open>predict_proba\<close> on the frame, which yields an array of rows of floats or raises.
  A loaded object carries the identity it got when it was deserialised, so that two
  loads of one file give two instances.
\<close>

record classifier =
  is_truthy :: bool
  predict_proba :: "dataframe \<Rightarrow> py_exception + rat list list"

datatype pyobj = PyNone | Object nat classifier

fun truthy :: "pyobj \<Rightarrow> bool" where
  "truthy PyNone = False"
| "truthy (Object i c) = is_truthy c"

text \<open>
  What is behind a path: nothing, something that cannot be opened or deserialised (with
  the exception that \<open>joblib.load\<close> raises on it), or a pickled classifier.
\<close>

datatype stored = Missing | Unreadable py_exception | Pickled classifier

type_synonym storage = "string \<Rightarrow> stored"

definition joblib_load :: "storage \<Rightarrow> string \<Rightarrow> py_exception + classifier" where
  "joblib_load fs path =
     (case fs path of
        Missing \<Rightarrow> Inl FileNotFoundError
      | Unreadable e \<Rightarrow> Inl e
      | Pickled c \<Rightarrow> Inr c)"

definition model_path :: string where
  "model_path = ''heart_disease_rf_model.pkl''"

definition not_found_message :: string where
  "not_found_message =
     ''Model file not found! Please run '' @ apostrophe @ ''deploy_model.py'' @ apostrophe @
     '' first to generate the .pkl file.''"

text \<open>
  The body of \<open>load_model\<close> (lines 18 to 23); \<open>i\<close> is the identity of the object a
  successful load creates. Only \<open>FileNotFoundError\<close> is caught.
\<close>

definition load_model_body :: "storage \<Rightarrow> nat \<Rightarrow> element list \<times> (py_exception + pyobj)" where
  "load_model_body fs i =
     (case joblib_load fs model_path of
        Inr c \<Rightarrow> ([], Inr (Object i c))
      | Inl e \<Rightarrow>
          (if e = FileNotFoundError then ([ErrorBox not_found_message], Inr PyNone)
           else ([], Inl e)))"

text \<open>
  Modelled from the spec: the decorator \<open>st.cache_resource\<close> of line 17 belongs to the
  framework, not to the script. It memoises the function for the lifetime of the process:
  the first call that returns stores the returned object together with the elements the
  call rendered; every later call returns that object and shows those elements again,
  without running the body. A call that raises stores nothing. \<open>loads\<close> counts the
  calls of \<open>joblib.load\<close>.
\<close>

record process =
  loads :: nat
  cache :: "(element list \<times> pyobj) option"

definition fresh_process :: process where
  "fresh_process = \<lparr>loads = 0, cache = None\<rparr>"

definition load_model ::
  "storage \<Rightarrow> process \<Rightarrow> (element list \<times> (py_exception + pyobj)) \<times> process" where
  "load_model fs p =
     (case cache p of
        Some (shown, obj) \<Rightarrow> ((shown, Inr obj), p)
      | None \<Rightarrow>
          (case load_model_body fs (Suc (loads p)) of
             (shown, Inr obj) \<Rightarrow>
               ((shown, Inr obj), \<lparr>loads = Suc (loads p), cache = Some (shown, obj)\<rparr>)
           | (shown, Inl e) \<Rightarrow>
               ((shown, Inl e), \<lparr>loads = Suc (loads p), cache = None\<rparr>)))"

subsection \<open>The sidebar: collecting the patient record\<close>

text \<open>
  The widgets are the framework's. What a widget returns in a run is an input of the
  model; \<open>selections\<close> holds the thirteen returned values, in the order of the calls.
\<close>

record selections =
  age_w :: int
  sex_option :: string
  cp_option :: string
  trestbps_w :: int
  chol_w :: int
  thalach_w :: int
  fbs_option :: string
  restecg_w :: int
  exang_option :: string
  oldpeak_w :: rat
  slope_w :: int
  ca_w :: int
  thal_option :: string

definition sex_options :: "string list" where
  "sex_options = [''Male'', ''Female'']"

definition cp_options :: "string list" where
  "cp_options =
     [''Typical Angina (0)'', ''Atypical Angina (1)'', ''Non-anginal Pain (2)'',
      ''Asymptomatic (3)'']"

definition no_yes_options :: "string list" where
  "no_yes_options = [''No'', ''Yes'']"

definition level_options :: "int list" where
  "level_options = [0, 1, 2]"

definition thal_options :: "string list" where
  "thal_options = [''Normal (1)'', ''Fixed Defect (2)'', ''Reversible Defect (3)'']"

text \<open>The float \<open>6.2\<close>, the upper end of the slider of line 66.\<close>

definition oldpeak_max :: rat where
  "oldpeak_max = 6980579422424269 / 1125899906842624"

text \<open>
  The framework's contract: a slider returns a value between its two ends, a select box
  or a radio group one of its options. The ends and the options are those of lines 35 to
  75.
\<close>

definition widget_domain :: "selections \<Rightarrow> bool" where
  "widget_domain w \<longleftrightarrow>
     20 \<le> age_w w \<and> age_w w \<le> 80 \<and>
     sex_option w \<in> set sex_options \<and>
     cp_option w \<in> set cp_options \<and>
     80 \<le> trestbps_w w \<and> trestbps_w w \<le> 200 \<and>
     100 \<le> chol_w w \<and> chol_w w \<le> 600 \<and>
     60 \<le> thalach_w w \<and> thalach_w w \<le> 220 \<and>
     fbs_option w \<in> set no_yes_options \<and>
     restecg_w w \<in> set level_options \<and>
     exang_option w \<in> set no_yes_options \<and>
     0 \<le> oldpeak_w w \<and> oldpeak_w w \<le> oldpeak_max \<and>
     slope_w w \<in> set level_options \<and>
     0 \<le> ca_w w \<and> ca_w w \<le> 3 \<and>
     thal_option w \<in> set thal_options"

text \<open>
  What the widgets return before the user touches them: the third argument of a slider,
  the option at \<open>index\<close> of a select box (the first one without \<open>index\<close>), the first
  option of a radio group.
\<close>

definition default_selections :: selections where
  "default_selections =
     \<lparr>age_w = 58, sex_option = ''Male'', cp_option = ''Non-anginal Pain (2)'',
      trestbps_w = 120, chol_w = 210, thalach_w = 130, fbs_option = ''No'', restecg_w = 1,
      exang_option = ''No'', oldpeak_w = 3 / 2, slope_w = 1, ca_w = 0,
      thal_option = ''Fixed Defect (2)''\<rparr>"

text \<open>The three inline conditionals of lines 39, 59 and 64.\<close>

definition sex_code :: "string \<Rightarrow> int" where
  "sex_code sex_opt = (if sex_opt = ''Male'' then 1 else 0)"

definition fbs_code :: "string \<Rightarrow> int" where
  "fbs_code fbs_opt = (if fbs_opt = ''Yes'' then 1 else 0)"

definition exang_code :: "string \<Rightarrow> int" where
  "exang_code exang_opt = (if exang_opt = ''Yes'' then 1 else 0)"

text \<open>The widgets in the order in which \<open>user_input_features\<close> creates them.\<close>

definition sidebar_widgets :: "element list" where
  "sidebar_widgets =
     [SidebarWidget Slider ''Age'',
      SidebarWidget Selectbox ''Sex'',
      SidebarWidget Selectbox ''Chest Pain Type'',
      SidebarWidget Slider ''Resting Systolic BP (Top Number)'',
      SidebarWidget Slider ''Cholesterol (mg/dl)'',
      SidebarWidget Slider ''Max Heart Rate Achieved'',
      SidebarWidget Radio ''Fasting Blood Sugar > 120 mg/dl?'',
      SidebarWidget Selectbox ''Resting ECG Results'',
      SidebarWidget Radio ''Exercise Induced Angina?'',
      SidebarWidget Slider ''ST Depression (Oldpeak)'',
      SidebarWidget Selectbox ''Slope of Peak Exercise ST'',
      SidebarWidget Slider ''Number of Major Vessels (0-3)'',
      SidebarWidget Selectbox ''Thalassemia'']"

text \<open>
  \<open>user_input_features\<close> (lines 33 to 95). The first component is what the call has
  put into the sidebar, the second the returned frame or the exception that ended the
  call: \<open>int\<close> of line 48 can raise after three widgets, \<open>int\<close> of line 76 after all
  thirteen.
\<close>

definition user_input_features :: "selections \<Rightarrow> element list \<times> (py_exception + dataframe)" where
  "user_input_features w =
     (let age = age_w w;
          sex = sex_code (sex_option w)
      in case parse_code (cp_option w) of
           Inl e \<Rightarrow> (take 3 sidebar_widgets, Inl e)
         | Inr cp \<Rightarrow>
             (let trestbps = trestbps_w w;
                  chol = chol_w w;
                  thalach = thalach_w w;
                  fbs = fbs_code (fbs_option w);
                  restecg = restecg_w w;
                  exang = exang_code (exang_option w);
                  oldpeak = oldpeak_w w;
                  slope = slope_w w;
                  ca = ca_w w
              in case parse_code (thal_option w) of
                   Inl e \<Rightarrow> (sidebar_widgets, Inl e)
                 | Inr thal \<Rightarrow>
                     (sidebar_widgets,
                      Inr (DataFrame
                        [(''age'', IntCell age),
                         (''sex'', IntCell sex),
                         (''cp'', IntCell cp),
                         (''trestbps'', IntCell trestbps),
                         (''chol'', IntCell chol),
                         (''fbs'', IntCell fbs),
                         (''restecg'', IntCell restecg),
                         (''thalach'', IntCell thalach),
                         (''exang'', IntCell exang),
                         (''oldpeak'', FloatCell oldpeak),
                         (''slope'', IntCell slope),
                         (''ca'', IntCell ca),
                         (''thal'', IntCell thal)]
                        [0]))))"

subsection \<open>The prediction block\<close>

text \<open>
  \<open>THRESHOLD = 0.3\<close> (line 111) is the float that the literal denotes, the binary64
  number nearest to three tenths.
\<close>

definition THRESHOLD :: rat where
  "THRESHOLD = 5404319552844595 / 18014398509481984"

definition is_high_risk :: "rat \<Rightarrow> bool" where
  "is_high_risk prediction_prob \<longleftrightarrow> THRESHOLD \<le> prediction_prob"

text \<open>The second column (lines 123 to 129).\<close>

definition risk_column :: "rat \<Rightarrow> element list" where
  "risk_column prediction_prob =
     (if is_high_risk prediction_prob
      then [ErrorBox ''**HIGH RISK**'', WriteText ''Recommendation: **Refer to Cardiology**'']
      else [SuccessBox ''**LOW RISK**'', WriteText ''Recommendation: **Standard Follow-up**''])"

text \<open>
  The caption of line 133 formats \<open>THRESHOLD*100\<close>, the float \<open>30.0\<close>, whose text is
  \<open>30.0\<close>.
\<close>

definition threshold_caption :: string where
  "threshold_caption = ''Note: This tool uses a high-sensitivity threshold of 30.0%.''"

text \<open>
  \<open>model.predict_proba(input_df)[0][1]\<close> (line 108): the second entry of the first row,
  \<open>IndexError\<close> when there is none.
\<close>

definition positive_probability :: "classifier \<Rightarrow> dataframe \<Rightarrow> py_exception + rat" where
  "positive_probability c df =
     (case predict_proba c df of
        Inl e \<Rightarrow> Inl e
      | Inr arr \<Rightarrow>
          (case arr of
             [] \<Rightarrow> Inl IndexError
           | r # _ \<Rightarrow> (case r of a # b # _ \<Rightarrow> Inr b | _ \<Rightarrow> Inl IndexError)))"

text \<open>
  Lines 111 to 133, for a probability already obtained: the elements shown and the
  exception that ends the run, if any. \<open>st.progress\<close> takes an integer from 0 to 100 and
  raises on any other.
\<close>

definition show_result :: "rat \<Rightarrow> element list \<times> py_exception option" where
  "show_result prediction_prob =
     (let shown =
        [Markdown ''---'', Subheader ''Assessment Result'',
         Columns [Metric ''Risk Probability'' (format_percent1 prediction_prob)]
                 (risk_column prediction_prob)]
      in case int_of_float (float_mul prediction_prob 100) of
           Inl e \<Rightarrow> (shown, Some e)
         | Inr v \<Rightarrow>
             (if 0 \<le> v \<and> v \<le> 100
              then (shown @ [Progress v, Caption threshold_caption], None)
              else (shown, Some StreamlitAPIException)))"

text \<open>
  Lines 105 to 133: the button, and under it the result when the button was pressed and
  the model is true (\<open>None\<close> is false, so the attribute error of a call on \<open>None\<close> cannot
  occur). The number counts the calls of \<open>predict_proba\<close>.
\<close>

definition assess :: "pyobj \<Rightarrow> dataframe \<Rightarrow> bool \<Rightarrow> element list \<times> nat \<times> py_exception option" where
  "assess model input_df pressed =
     (if pressed then
        (if truthy model then
           (case model of
              PyNone \<Rightarrow> ([], 0, Some (OtherException ''AttributeError''))
            | Object i c \<Rightarrow>
                (case positive_probability c input_df of
                   Inl e \<Rightarrow> ([], 1, Some e)
                 | Inr prediction_prob \<Rightarrow>
                     (case show_result prediction_prob of (shown, err) \<Rightarrow> (shown, 1, err))))
         else ([], 0, None))
      else ([], 0, None))"

subsection \<open>One run of the script\<close>

record interaction =
  widgets :: selections
  pressed :: bool

record page =
  rendered :: "element list"
  predictions :: nat
  fault :: "py_exception option"

text \<open>Lines 27 to 133, with \<open>model\<close> as line 25 has bound it.\<close>

definition script_body :: "pyobj \<Rightarrow> interaction \<Rightarrow> page" where
  "script_body model act =
     (case user_input_features (widgets act) of
        (sidebar, Inl e) \<Rightarrow>
          \<lparr>rendered = SidebarHeader ''Patient Vitals'' # sidebar, predictions = 0, fault = Some e\<rparr>
      | (sidebar, Inr input_df) \<Rightarrow>
          (case assess model input_df (pressed act) of
             (shown, n, err) \<Rightarrow>
               \<lparr>rendered =
                  SidebarHeader ''Patient Vitals'' # sidebar @
                  [Subheader ''Patient Data Summary'', WriteFrame input_df,
                   Button ''Assess Risk''] @ shown,
                predictions = n, fault = err\<rparr>))"

text \<open>
  The whole script: the header, the cached load, and the body. An exception out of
  \<open>load_model\<close> ends the run at line 25.
\<close>

definition run :: "storage \<Rightarrow> process \<Rightarrow> interaction \<Rightarrow> page \<times> process" where
  "run fs p act =
     (case load_model fs p of
        ((shown, Inl e), p') \<Rightarrow>
          (\<lparr>rendered = page_header @ shown, predictions = 0, fault = Some e\<rparr>, p')
      | ((shown, Inr model), p') \<Rightarrow>
          (let body = script_body model act
           in (body\<lparr>rendered := page_header @ shown @ rendered body\<rparr>, p')))"

text \<open>The states of a process that runs the script over a storage that does not change.\<close>

inductive reachable :: "storage \<Rightarrow> process \<Rightarrow> bool" for fs :: storage where
  start: "reachable fs fresh_process"
| step: "reachable fs p \<Longrightarrow> reachable fs (snd (run fs p act))"

subsection \<open>Auxiliary notions for the proofs\<close>



section \<open>Properties\<close>

subsection \<open>Reading back a printed integer\<close>






























subsection \<open>Evaluating the float operations\<close>

text \<open>
  Rules that let the simplifier compute \<open>bitlen\<close>, \<open>floor\<close> and \<open>ceiling\<close> on numerals, and
  a rule that reduces a rounding to its two steps: the exponent and the significand.
\<close>

lemma bitlen_0: "bitlen 0 = 0" by (subst bitlen.simps) simp
lemma bitlen_1: "bitlen 1 = 1" by (subst bitlen.simps, simp)+
lemma bitlen_Bit0: "bitlen (numeral (Num.Bit0 k)) = 1 + bitlen (numeral k)"
  by (subst bitlen.simps) simp
lemma bitlen_Bit1: "bitlen (numeral (Num.Bit1 k)) = 1 + bitlen (numeral k)"
  by (subst bitlen.simps) simp
lemma bitlen_One: "bitlen (numeral Num.One) = 1"
  using bitlen_1 by simp

lemmas bitlen_num = bitlen_0 bitlen_1 bitlen_Bit0 bitlen_Bit1 bitlen_One

lemma floor_rat_numeral:
  "\<lfloor>numeral a / numeral b :: rat\<rfloor> = numeral a div numeral b"
  using floor_divide_of_int_eq [of "numeral a" "numeral b", where ?'a = rat] by simp

lemma ceiling_rat_numeral:
  "\<lceil>numeral a / numeral b :: rat\<rceil> = - (- numeral a div numeral b)"
  using floor_divide_of_int_eq [of "- numeral a" "numeral b", where ?'a = rat]
  by (simp add: ceiling_def)

lemmas rat_eval = floor_rat_numeral ceiling_rat_numeral

lemma pow2_less_1024: "\<bar>y\<bar> < 2 ^ 64 \<Longrightarrow> \<not> pow2 1024 \<le> \<bar>y\<bar>"
proof -
  assume a: "\<bar>y\<bar> < 2 ^ 64"
  have "(2::rat) ^ 64 \<le> 2 ^ 1024" by (rule power_increasing) simp_all
  then show ?thesis using a by (simp add: pow2_def)
qed

lemma binary64_eval:
  assumes "x \<noteq> 0" and "ilog2 \<bar>x\<bar> = e" and "- 1022 \<le> e"
    and "round_half_even (x / pow2 (e - 52)) = m"
    and "\<bar>of_int m * pow2 (e - 52)\<bar> < 2 ^ 64"
  shows "binary64 x = Some (of_int m * pow2 (e - 52))"
  using assms pow2_less_1024 [of "of_int m * pow2 (e - 52)"]
  by (simp add: binary64_def Let_def max_def)

text \<open>
  The rounding is to the nearest: \<open>ilog2\<close> finds the binade of its argument, and a finite
  result of \<open>binary64\<close> is a multiple of the unit in the last place of that binade, at most
  half a unit away from the number that was rounded.
\<close>

lemma bitlen_bounds:
  "0 < n \<Longrightarrow> 1 \<le> bitlen n \<and> 2 ^ nat (bitlen n - 1) \<le> n \<and> n < 2 ^ nat (bitlen n)"
proof (induction n rule: bitlen.induct)
  case (1 n)
  show ?case
  proof (cases "n = 1")
    case True
    then show ?thesis by (simp add: bitlen_1)
  next
    case False
    with "1.prems" have h: "0 < n div 2" by simp
    from "1.prems" have nz: "\<not> n \<le> 0" by simp
    from "1.IH" [OF nz h] have ih: "1 \<le> bitlen (n div 2)"
      "2 ^ nat (bitlen (n div 2) - 1) \<le> n div 2" "n div 2 < 2 ^ nat (bitlen (n div 2))"
      by simp_all
    have b: "bitlen n = 1 + bitlen (n div 2)"
      using nz by (subst bitlen.simps) simp
    have p: "(2::int) ^ nat (bitlen (n div 2)) = 2 * 2 ^ nat (bitlen (n div 2) - 1)"
    proof -
      have "nat (bitlen (n div 2)) = Suc (nat (bitlen (n div 2) - 1))"
        using ih(1) by simp
      then show ?thesis by simp
    qed
    have lo: "2 * 2 ^ nat (bitlen (n div 2) - 1) \<le> n"
      using ih(2) by linarith
    have hi: "n < 2 * 2 ^ nat (bitlen (n div 2))"
      using ih(3) by linarith
    have n1: "nat (1 + bitlen (n div 2)) = Suc (nat (bitlen (n div 2)))"
      using ih(1) by simp
    show ?thesis
      using ih(1) lo hi by (simp add: b p n1)
  qed
qed

lemma round_half_even_error: "\<bar>of_int (round_half_even x) - x\<bar> \<le> 1 / 2"
proof -
  have "of_int \<lfloor>x\<rfloor> \<le> x" "x < of_int \<lfloor>x\<rfloor> + 1" by linarith+
  then show ?thesis
    by (auto simp: round_half_even_def Let_def)
qed

lemma ilog2_bounds:
  assumes "0 < x"
  shows "pow2 (ilog2 x) \<le> x \<and> x < pow2 (ilog2 x + 1)"
proof (cases "1 \<le> x")
  case True
  define f where "f = \<lfloor>x\<rfloor>"
  have f1: "0 < f" using True by (simp add: f_def)
  have fx: "of_int f \<le> x" "x < of_int f + 1" unfolding f_def by linarith+
  from bitlen_bounds [OF f1] have b: "1 \<le> bitlen f" "2 ^ nat (bitlen f - 1) \<le> f"
    "f < 2 ^ nat (bitlen f)" by simp_all
  have e: "ilog2 x = bitlen f - 1" using True by (simp add: ilog2_def f_def)
  have lo: "(2::rat) ^ nat (bitlen f - 1) \<le> of_int f"
    using b(2) by simp
  have "f + 1 \<le> 2 ^ nat (bitlen f)" using b(3) by simp
  then have "(of_int (f + 1) :: rat) \<le> 2 ^ nat (bitlen f)"
    by (subst of_int_le_numeral_power_cancel_iff)
  then have hi: "of_int f + 1 \<le> (2::rat) ^ nat (bitlen f)" by simp
  have 1: "pow2 (ilog2 x) = 2 ^ nat (bitlen f - 1)"
    and 2: "pow2 (ilog2 x + 1) = 2 ^ nat (bitlen f)"
    using b(1) by (simp_all add: e pow2_def)
  show ?thesis
    unfolding 1 2 using lo hi fx by linarith
next
  case False
  define c where "c = \<lceil>1 / x\<rceil>"
  define k where "k = bitlen (c - 1)"
  from False assms have y1: "1 < 1 / x" by simp
  then have c2: "0 < c - 1" by (simp add: c_def less_ceiling_iff)
  have cy: "of_int c - 1 < 1 / x" "1 / x \<le> of_int c"
    by (simp_all add: c_def) linarith
  from bitlen_bounds [OF c2] have b: "1 \<le> k" "2 ^ nat (k - 1) \<le> c - 1" "c - 1 < 2 ^ nat k"
    by (simp_all add: k_def)
  have e: "ilog2 x = - k" using False by (simp add: ilog2_def c_def k_def)
  have "(2::rat) ^ nat (k - 1) \<le> of_int (c - 1)"
    using b(2) by (subst numeral_power_le_of_int_cancel_iff)
  then have lo: "(2::rat) ^ nat (k - 1) \<le> of_int c - 1" by simp
  have "c \<le> 2 ^ nat k" using b(3) by simp
  then have hi: "of_int c \<le> (2::rat) ^ nat k"
    by (subst of_int_le_numeral_power_cancel_iff)
  have p: "(0::rat) < 2 ^ nat k" "(0::rat) < 2 ^ nat (k - 1)" by simp_all
  have 1: "1 / 2 ^ nat k \<le> x"
  proof -
    from cy(2) hi have "1 / x \<le> 2 ^ nat k" by linarith
    with assms p(1) show ?thesis by (simp add: field_simps)
  qed
  have 2: "x < 1 / 2 ^ nat (k - 1)"
  proof -
    from cy(1) lo have "2 ^ nat (k - 1) < 1 / x" by linarith
    with assms p(2) show ?thesis by (simp add: field_simps)
  qed
  have 3: "pow2 (- k + 1) = 1 / 2 ^ nat (k - 1)"
    using b(1) by (cases "k = 1") (simp_all add: pow2_def)
  have 4: "pow2 (- k) = 1 / 2 ^ nat k"
    using b(1) by (simp add: pow2_def)
  show ?thesis unfolding e 4 using 1 2 3 by simp
qed

lemma binary64_nearest:
  assumes "binary64 x = Some y" and "x \<noteq> 0"
  shows "\<exists>m. y = of_int m * pow2 (max (ilog2 \<bar>x\<bar>) (- 1022) - 52) \<and>
    \<bar>y - x\<bar> \<le> pow2 (max (ilog2 \<bar>x\<bar>) (- 1022) - 52) / 2"
proof -
  define u where "u = pow2 (max (ilog2 \<bar>x\<bar>) (- 1022) - 52)"
  have u0: "0 < u" by (simp add: u_def pow2_def)
  from assms have y: "y = of_int (round_half_even (x / u)) * u"
    by (simp add: binary64_def Let_def u_def split: if_splits)
  have "\<bar>of_int (round_half_even (x / u)) - x / u\<bar> \<le> 1 / 2"
    by (rule round_half_even_error)
  then have "\<bar>of_int (round_half_even (x / u)) - x / u\<bar> * u \<le> 1 / 2 * u"
    using u0 by (simp only: mult_le_cancel_right_pos)
  moreover have "\<bar>of_int (round_half_even (x / u)) - x / u\<bar> * u = \<bar>y - x\<bar>"
  proof -
    have "(of_int (round_half_even (x / u)) - x / u) * u = y - x"
      using u0 by (simp add: y left_diff_distrib)
    then have "\<bar>y - x\<bar> = \<bar>of_int (round_half_even (x / u)) - x / u\<bar> * \<bar>u\<bar>"
      by (metis abs_mult)
    with u0 show ?thesis by simp
  qed
  ultimately have "\<bar>y - x\<bar> \<le> u / 2" by simp
  with y show ?thesis unfolding u_def by blast
qed

text \<open>The literals and the products that the claims speak of.\<close>

lemma literal_0_3: "binary64 (3 / 10) = Some THRESHOLD"
proof -
  have 1: "ilog2 \<bar>3 / 10\<bar> = - 2"
    by (simp add: ilog2_def bitlen_num rat_eval)
  have 2: "round_half_even (3 / 10 / pow2 (- 2 - 52)) = 5404319552844595"
    by (simp add: round_half_even_def pow2_def Let_def rat_eval)
  show ?thesis
    using binary64_eval [OF _ 1 _ 2] by (simp add: pow2_def THRESHOLD_def)
qed

lemma literal_0_2999:
  "binary64 (2999 / 10000) = Some (5402518112993647 / 18014398509481984)"
proof -
  have 1: "ilog2 \<bar>2999 / 10000\<bar> = - 2"
    by (simp add: ilog2_def bitlen_num rat_eval)
  have 2: "round_half_even (2999 / 10000 / pow2 (- 2 - 52)) = 5402518112993647"
    by (simp add: round_half_even_def pow2_def Let_def rat_eval)
  show ?thesis
    using binary64_eval [OF _ 1 _ 2] by (simp add: pow2_def)
qed

lemma literal_0_45:
  "binary64 (45 / 100) = Some (8106479329266893 / 18014398509481984)"
proof -
  have 1: "ilog2 \<bar>45 / 100\<bar> = - 2"
    by (simp add: ilog2_def bitlen_num rat_eval)
  have 2: "round_half_even (45 / 100 / pow2 (- 2 - 52)) = 8106479329266893"
    by (simp add: round_half_even_def pow2_def Let_def rat_eval)
  show ?thesis
    using binary64_eval [OF _ 1 _ 2] by (simp add: pow2_def)
qed

lemma literal_0_1:
  "binary64 (1 / 10) = Some (3602879701896397 / 36028797018963968)"
proof -
  have 1: "ilog2 \<bar>1 / 10\<bar> = - 4"
    by (simp add: ilog2_def bitlen_num rat_eval)
  have 2: "round_half_even (1 / 10 / pow2 (- 4 - 52)) = 7205759403792794"
    by (simp add: round_half_even_def pow2_def Let_def rat_eval)
  show ?thesis
    using binary64_eval [OF _ 1 _ 2] by (simp add: pow2_def)
qed

lemma literal_6_2: "binary64 (62 / 10) = Some oldpeak_max"
proof -
  have 1: "ilog2 \<bar>62 / 10\<bar> = 2"
    by (simp add: ilog2_def bitlen_num rat_eval)
  have 2: "round_half_even (62 / 10 / pow2 (2 - 52)) = 6980579422424269"
    by (simp add: round_half_even_def pow2_def Let_def rat_eval)
  show ?thesis
    using binary64_eval [OF _ 1 _ 2] by (simp add: pow2_def oldpeak_max_def)
qed

lemma threshold_times_100: "float_mul THRESHOLD 100 = Some 30"
proof -
  have 1: "ilog2 \<bar>THRESHOLD * 100\<bar> = 4"
    by (simp add: THRESHOLD_def ilog2_def bitlen_num rat_eval)
  have 2: "round_half_even (THRESHOLD * 100 / pow2 (4 - 52)) = 8444249301319680"
    by (simp add: THRESHOLD_def round_half_even_def pow2_def Let_def rat_eval)
  show ?thesis
    using binary64_eval [OF _ 1 _ 2] by (simp add: pow2_def THRESHOLD_def float_mul_def)
qed

lemma product_0_45: "float_mul (8106479329266893 / 18014398509481984) 100 = Some 45"
proof -
  have 1: "ilog2 \<bar>8106479329266893 / 18014398509481984 * 100\<bar> = 5"
    by (simp add: ilog2_def bitlen_num rat_eval)
  have 2: "round_half_even (8106479329266893 / 18014398509481984 * 100 / pow2 (5 - 52)) = 6333186975989760"
    by (simp add: round_half_even_def pow2_def Let_def rat_eval)
  show ?thesis
    using binary64_eval [OF _ 1 _ 2] by (simp add: pow2_def float_mul_def)
qed

lemma product_0_1: "float_mul (3602879701896397 / 36028797018963968) 100 = Some 10"
proof -
  have 1: "ilog2 \<bar>3602879701896397 / 36028797018963968 * 100\<bar> = 3"
    by (simp add: ilog2_def bitlen_num rat_eval)
  have 2: "round_half_even (3602879701896397 / 36028797018963968 * 100 / pow2 (3 - 52)) = 5629499534213120"
    by (simp add: round_half_even_def pow2_def Let_def rat_eval)
  show ?thesis
    using binary64_eval [OF _ 1 _ 2] by (simp add: pow2_def float_mul_def)
qed

lemma format_0_45: "format_percent1 (8106479329266893 / 18014398509481984) = ''45.0%''"
  by (simp add: format_percent1_def product_0_45 round_half_even_def Let_def str_nat.simps digit_char_def)

lemma format_0_1: "format_percent1 (3602879701896397 / 36028797018963968) = ''10.0%''"
  by (simp add: format_percent1_def product_0_1 round_half_even_def Let_def str_nat.simps digit_char_def)


lemma show_0_45:
  "show_result (8106479329266893 / 18014398509481984) =
     ([Markdown ''---'', Subheader ''Assessment Result'',
       Columns [Metric ''Risk Probability'' ''45.0%'']
         [ErrorBox ''**HIGH RISK**'', WriteText ''Recommendation: **Refer to Cardiology**''],
       Progress 45, Caption threshold_caption], None)"
  by (simp add: show_result_def format_0_45 product_0_45 int_of_float_def py_trunc_def
      risk_column_def is_high_risk_def THRESHOLD_def)

lemma show_0_1:
  "show_result (3602879701896397 / 36028797018963968) =
     ([Markdown ''---'', Subheader ''Assessment Result'',
       Columns [Metric ''Risk Probability'' ''10.0%'']
         [SuccessBox ''**LOW RISK**'', WriteText ''Recommendation: **Standard Follow-up**''],
       Progress 10, Caption threshold_caption], None)"
  by (simp add: show_result_def format_0_1 product_0_1 int_of_float_def py_trunc_def
      risk_column_def is_high_risk_def THRESHOLD_def)

lemma parse_cp:
  "parse_code ''Typical Angina (0)'' = Inr 0"
  "parse_code ''Atypical Angina (1)'' = Inr 1"
  "parse_code ''Non-anginal Pain (2)'' = Inr 2"
  "parse_code ''Asymptomatic (3)'' = Inr 3"
  by code_simp+

lemma parse_thal:
  "parse_code ''Normal (1)'' = Inr 1"
  "parse_code ''Fixed Defect (2)'' = Inr 2"
  "parse_code ''Reversible Defect (3)'' = Inr 3"
  by code_simp+

subsection \<open>The collected record\<close>

lemma user_input_features_parsed:
  assumes "parse_code (cp_option w) = Inr cp" and "parse_code (thal_option w) = Inr thal"
  shows "user_input_features w =
    (sidebar_widgets,
     Inr \<lparr>df_columns =
            [''age'', ''sex'', ''cp'', ''trestbps'', ''chol'', ''fbs'', ''restecg'', ''thalach'',
             ''exang'', ''oldpeak'', ''slope'', ''ca'', ''thal''],
          df_index = [0],
          df_rows =
            [[IntCell (age_w w), IntCell (sex_code (sex_option w)), IntCell cp,
              IntCell (trestbps_w w), IntCell (chol_w w), IntCell (fbs_code (fbs_option w)),
              IntCell (restecg_w w), IntCell (thalach_w w),
              IntCell (exang_code (exang_option w)), FloatCell (oldpeak_w w),
              IntCell (slope_w w), IntCell (ca_w w), IntCell thal]]\<rparr>)"
  using assms by (simp add: user_input_features_def DataFrame_def)

lemma cp_parsed:
  assumes "cp_option w \<in> set cp_options"
  shows "\<exists>cp. parse_code (cp_option w) = Inr cp \<and> 0 \<le> cp \<and> cp \<le> 3"
  using assms by (auto simp: cp_options_def parse_cp)

lemma thal_parsed:
  assumes "thal_option w \<in> set thal_options"
  shows "\<exists>thal. parse_code (thal_option w) = Inr thal \<and> 1 \<le> thal \<and> thal \<le> 3"
  using assms by (auto simp: thal_options_def parse_thal)

lemma widget_domain_default: "widget_domain default_selections"
  by (simp add: widget_domain_def default_selections_def sex_options_def cp_options_def
      no_yes_options_def level_options_def thal_options_def oldpeak_max_def)

lemma default_frame:
  "user_input_features default_selections =
    (sidebar_widgets,
     Inr \<lparr>df_columns =
            [''age'', ''sex'', ''cp'', ''trestbps'', ''chol'', ''fbs'', ''restecg'', ''thalach'',
             ''exang'', ''oldpeak'', ''slope'', ''ca'', ''thal''],
          df_index = [0],
          df_rows =
            [[IntCell 58, IntCell 1, IntCell 2, IntCell 120, IntCell 210, IntCell 0, IntCell 1,
              IntCell 130, IntCell 0, FloatCell (3 / 2), IntCell 1, IntCell 0, IntCell 2]]\<rparr>)"
  using user_input_features_parsed [of default_selections 2 2]
  by (simp add: default_selections_def parse_cp parse_thal sex_code_def fbs_code_def exang_code_def)


subsection \<open>The collector and the run\<close>

lemma collected_frame:
  assumes "widget_domain w"
  shows "\<exists>cp thal.
    parse_code (cp_option w) = Inr cp \<and> 0 \<le> cp \<and> cp \<le> 3 \<and>
    parse_code (thal_option w) = Inr thal \<and> 1 \<le> thal \<and> thal \<le> 3 \<and>
    user_input_features w =
      (sidebar_widgets,
       Inr \<lparr>df_columns =
              [''age'', ''sex'', ''cp'', ''trestbps'', ''chol'', ''fbs'', ''restecg'', ''thalach'',
               ''exang'', ''oldpeak'', ''slope'', ''ca'', ''thal''],
            df_index = [0],
            df_rows =
              [[IntCell (age_w w), IntCell (sex_code (sex_option w)), IntCell cp,
                IntCell (trestbps_w w), IntCell (chol_w w), IntCell (fbs_code (fbs_option w)),
                IntCell (restecg_w w), IntCell (thalach_w w),
                IntCell (exang_code (exang_option w)), FloatCell (oldpeak_w w),
                IntCell (slope_w w), IntCell (ca_w w), IntCell thal]]\<rparr>)"
proof -
  from assms have "cp_option w \<in> set cp_options" and "thal_option w \<in> set thal_options"
    by (simp_all add: widget_domain_def)
  then obtain cp thal where
    cp: "parse_code (cp_option w) = Inr cp" "0 \<le> cp" "cp \<le> 3" and
    thal: "parse_code (thal_option w) = Inr thal" "1 \<le> thal" "thal \<le> 3"
    using cp_parsed thal_parsed by blast
  show ?thesis
    by (intro exI conjI) (rule cp thal user_input_features_parsed [OF cp(1) thal(1)])+
qed

lemma run_process: "snd (run fs p act) = snd (load_model fs p)"
  by (simp add: run_def Let_def split: prod.splits sum.splits)

lemma load_model_missing:
  assumes "fs model_path = Missing"
    and "cache p = None \<or> cache p = Some ([ErrorBox not_found_message], PyNone)"
  shows "fst (load_model fs p) = ([ErrorBox not_found_message], Inr PyNone)"
    and "cache (snd (load_model fs p)) = Some ([ErrorBox not_found_message], PyNone)"
  using assms by (auto simp: load_model_def load_model_body_def joblib_load_def)

lemma reachable_missing:
  assumes "fs model_path = Missing" and "reachable fs p"
  shows "cache p = None \<or> cache p = Some ([ErrorBox not_found_message], PyNone)"
  using assms(2)
proof (induction rule: reachable.induct)
  case start
  show ?case by (simp add: fresh_process_def)
next
  case (step p act)
  then show ?case
    using load_model_missing(2) [of fs p] assms(1) by (simp add: run_process)
qed

lemma script_body_collected:
  assumes "user_input_features w = (sidebar_widgets, Inr df)"
  shows "script_body model \<lparr>widgets = w, pressed = b\<rparr> =
    \<lparr>rendered =
       SidebarHeader ''Patient Vitals'' # sidebar_widgets @
       [Subheader ''Patient Data Summary'', WriteFrame df, Button ''Assess Risk''] @
       fst (assess model df b),
     predictions = fst (snd (assess model df b)),
     fault = snd (snd (assess model df b))\<rparr>"
  using assms by (simp add: script_body_def split: prod.splits)

lemma run_loaded:
  assumes "fst (load_model fs p) = (shown, Inr model)"
  shows "fst (run fs p act) =
    (script_body model act)\<lparr>rendered := page_header @ shown @ rendered (script_body model act)\<rparr>"
proof -
  from assms obtain p' where "load_model fs p = ((shown, Inr model), p')"
    by (cases "load_model fs p") auto
  then show ?thesis by (simp add: run_def Let_def)
qed

lemma run_load_fault:
  assumes "fst (load_model fs p) = (shown, Inl e)"
  shows "fst (run fs p act) = \<lparr>rendered = page_header @ shown, predictions = 0, fault = Some e\<rparr>"
proof -
  from assms obtain p' where "load_model fs p = ((shown, Inl e), p')"
    by (cases "load_model fs p") auto
  then show ?thesis by (simp add: run_def)
qed

subsection \<open>The claims\<close>

text \<open>
  C1. The risk classification depends on the probability alone, with the threshold the
  float \<open>0.3\<close>: a probability at or above it shows HIGH RISK with the recommendation
  to refer to cardiology, a probability below it shows LOW RISK with the standard
  follow-up. The floats \<open>0.3\<close> and \<open>1.0\<close> are high, \<open>0.2999\<close> and \<open>0.0\<close> are low, and
  the classification is monotonic. Comparison is between floats: \<open>0.3\<close> is the float
  that the literal denotes.
\<close>

theorem risk_classification:
  "(THRESHOLD \<le> p \<longrightarrow>
      is_high_risk p \<and>
      risk_column p =
        [ErrorBox ''**HIGH RISK**'', WriteText ''Recommendation: **Refer to Cardiology**'']) \<and>
   (p < THRESHOLD \<longrightarrow>
      \<not> is_high_risk p \<and>
      risk_column p =
        [SuccessBox ''**LOW RISK**'', WriteText ''Recommendation: **Standard Follow-up**'']) \<and>
   (\<exists>m. Columns m (risk_column p) \<in> set (fst (show_result p))) \<and>
   binary64 (3 / 10) = Some THRESHOLD \<and> is_high_risk THRESHOLD \<and>
   binary64 (2999 / 10000) = Some (5402518112993647 / 18014398509481984) \<and>
   \<not> is_high_risk (5402518112993647 / 18014398509481984) \<and>
   is_high_risk 1 \<and> \<not> is_high_risk 0 \<and>
   (p \<le> q \<longrightarrow> is_high_risk p \<longrightarrow> is_high_risk q)"
proof -
  have shown: "\<exists>m. Columns m (risk_column p) \<in> set (fst (show_result p))"
    by (auto simp: show_result_def Let_def split: sum.splits)
  have vals: "is_high_risk THRESHOLD" "\<not> is_high_risk (5402518112993647 / 18014398509481984)"
    "is_high_risk 1" "\<not> is_high_risk 0"
    by (simp_all add: is_high_risk_def THRESHOLD_def)
  have mono: "p \<le> q \<longrightarrow> is_high_risk p \<longrightarrow> is_high_risk q"
    by (simp add: is_high_risk_def)
  show ?thesis
    using shown vals mono literal_0_3 literal_0_2999
    by (simp add: risk_column_def is_high_risk_def)
qed

theorem risk_classification_witness:
  "THRESHOLD \<le> 8106479329266893 / 18014398509481984 \<and>
   risk_column (8106479329266893 / 18014398509481984) =
     [ErrorBox ''**HIGH RISK**'', WriteText ''Recommendation: **Refer to Cardiology**''] \<and>
   3602879701896397 / 36028797018963968 < THRESHOLD \<and>
   risk_column (3602879701896397 / 36028797018963968) =
     [SuccessBox ''**LOW RISK**'', WriteText ''Recommendation: **Standard Follow-up**''] \<and>
   (3602879701896397 / 36028797018963968 :: rat) \<le> 8106479329266893 / 18014398509481984 \<and>
   is_high_risk (8106479329266893 / 18014398509481984) \<and> is_high_risk 1"
proof -
  have h: "THRESHOLD \<le> 8106479329266893 / 18014398509481984"
    and l: "3602879701896397 / 36028797018963968 < THRESHOLD"
    by (simp_all add: THRESHOLD_def)
  show ?thesis
    using h l risk_classification [of "8106479329266893 / 18014398509481984" 1]
      risk_classification [of "3602879701896397 / 36028797018963968"
        "8106479329266893 / 18014398509481984"]
    by simp
qed

text \<open>
  C2. The end-to-end scenario. With the thirteen scenario inputs the collector returns
  the one-row frame with the columns age, sex, cp, trestbps, chol, fbs, restecg, thalach,
  exang, oldpeak, slope, ca, thal and the values 58, 1, 2, 120, 210, 0, 1, 130, 0, 1.5,
  1, 0, 2. A run of the whole script on a fresh process, with the button pressed and a
  stored stub whose \<open>predict_proba\<close> gives the float \<open>0.45\<close> for the positive class, shows
  45.0%, HIGH RISK and the referral to cardiology; with the float \<open>0.1\<close> it shows 10.0%,
  LOW RISK and the standard follow-up. Each run calls the predictor once and ends without
  an exception.
\<close>

theorem end_to_end_scenario:
  "snd (user_input_features
      \<lparr>age_w = 58, sex_option = ''Male'', cp_option = ''Non-anginal Pain (2)'',
       trestbps_w = 120, chol_w = 210, thalach_w = 130, fbs_option = ''No'', restecg_w = 1,
       exang_option = ''No'', oldpeak_w = 3 / 2, slope_w = 1, ca_w = 0,
       thal_option = ''Fixed Defect (2)''\<rparr>) =
     Inr \<lparr>df_columns =
            [''age'', ''sex'', ''cp'', ''trestbps'', ''chol'', ''fbs'', ''restecg'', ''thalach'',
             ''exang'', ''oldpeak'', ''slope'', ''ca'', ''thal''],
          df_index = [0],
          df_rows =
            [[IntCell 58, IntCell 1, IntCell 2, IntCell 120, IntCell 210, IntCell 0, IntCell 1,
              IntCell 130, IntCell 0, FloatCell (3 / 2), IntCell 1, IntCell 0, IntCell 2]]\<rparr> \<and>
   binary64 (45 / 100) = Some (8106479329266893 / 18014398509481984) \<and>
   fst (run (\<lambda>path. Pickled \<lparr>is_truthy = True,
               predict_proba = (\<lambda>df. Inr [[a, 8106479329266893 / 18014398509481984]])\<rparr>)
          fresh_process
          \<lparr>widgets =
             \<lparr>age_w = 58, sex_option = ''Male'', cp_option = ''Non-anginal Pain (2)'',
              trestbps_w = 120, chol_w = 210, thalach_w = 130, fbs_option = ''No'',
              restecg_w = 1, exang_option = ''No'', oldpeak_w = 3 / 2, slope_w = 1, ca_w = 0,
              thal_option = ''Fixed Defect (2)''\<rparr>,
           pressed = True\<rparr>) =
     \<lparr>rendered =
        page_header @ SidebarHeader ''Patient Vitals'' # sidebar_widgets @
        [Subheader ''Patient Data Summary'',
         WriteFrame
           \<lparr>df_columns =
              [''age'', ''sex'', ''cp'', ''trestbps'', ''chol'', ''fbs'', ''restecg'', ''thalach'',
               ''exang'', ''oldpeak'', ''slope'', ''ca'', ''thal''],
            df_index = [0],
            df_rows =
              [[IntCell 58, IntCell 1, IntCell 2, IntCell 120, IntCell 210, IntCell 0,
                IntCell 1, IntCell 130, IntCell 0, FloatCell (3 / 2), IntCell 1, IntCell 0,
                IntCell 2]]\<rparr>,
         Button ''Assess Risk'', Markdown ''---'', Subheader ''Assessment Result'',
         Columns [Metric ''Risk Probability'' ''45.0%'']
           [ErrorBox ''**HIGH RISK**'', WriteText ''Recommendation: **Refer to Cardiology**''],
         Progress 45, Caption threshold_caption],
      predictions = 1, fault = None\<rparr> \<and>
   binary64 (1 / 10) = Some (3602879701896397 / 36028797018963968) \<and>
   fst (run (\<lambda>path. Pickled \<lparr>is_truthy = True,
               predict_proba = (\<lambda>df. Inr [[a, 3602879701896397 / 36028797018963968]])\<rparr>)
          fresh_process
          \<lparr>widgets =
             \<lparr>age_w = 58, sex_option = ''Male'', cp_option = ''Non-anginal Pain (2)'',
              trestbps_w = 120, chol_w = 210, thalach_w = 130, fbs_option = ''No'',
              restecg_w = 1, exang_option = ''No'', oldpeak_w = 3 / 2, slope_w = 1, ca_w = 0,
              thal_option = ''Fixed Defect (2)''\<rparr>,
           pressed = True\<rparr>) =
     \<lparr>rendered =
        page_header @ SidebarHeader ''Patient Vitals'' # sidebar_widgets @
        [Subheader ''Patient Data Summary'',
         WriteFrame
           \<lparr>df_columns =
              [''age'', ''sex'', ''cp'', ''trestbps'', ''chol'', ''fbs'', ''restecg'', ''thalach'',
               ''exang'', ''oldpeak'', ''slope'', ''ca'', ''thal''],
            df_index = [0],
            df_rows =
              [[IntCell 58, IntCell 1, IntCell 2, IntCell 120, IntCell 210, IntCell 0,
                IntCell 1, IntCell 130, IntCell 0, FloatCell (3 / 2), IntCell 1, IntCell 0,
                IntCell 2]]\<rparr>,
         Button ''Assess Risk'', Markdown ''---'', Subheader ''Assessment Result'',
         Columns [Metric ''Risk Probability'' ''10.0%'']
           [SuccessBox ''**LOW RISK**'', WriteText ''Recommendation: **Standard Follow-up**''],
         Progress 10, Caption threshold_caption],
      predictions = 1, fault = None\<rparr>"
proof -
  have f: "user_input_features
      \<lparr>age_w = 58, sex_option = ''Male'', cp_option = ''Non-anginal Pain (2)'',
       trestbps_w = 120, chol_w = 210, thalach_w = 130, fbs_option = ''No'', restecg_w = 1,
       exang_option = ''No'', oldpeak_w = 3 / 2, slope_w = 1, ca_w = 0,
       thal_option = ''Fixed Defect (2)''\<rparr> =
    (sidebar_widgets,
     Inr \<lparr>df_columns =
            [''age'', ''sex'', ''cp'', ''trestbps'', ''chol'', ''fbs'', ''restecg'', ''thalach'',
             ''exang'', ''oldpeak'', ''slope'', ''ca'', ''thal''],
          df_index = [0],
          df_rows =
            [[IntCell 58, IntCell 1, IntCell 2, IntCell 120, IntCell 210, IntCell 0, IntCell 1,
              IntCell 130, IntCell 0, FloatCell (3 / 2), IntCell 1, IntCell 0, IntCell 2]]\<rparr>)"
    using default_frame by (simp add: default_selections_def)
  note run_simps = run_def load_model_def fresh_process_def load_model_body_def
    joblib_load_def script_body_def assess_def positive_probability_def
  show ?thesis
  proof (intro conjI)
    show "binary64 (45 / 100) = Some (8106479329266893 / 18014398509481984)"
      by (rule literal_0_45)
    show "binary64 (1 / 10) = Some (3602879701896397 / 36028797018963968)"
      by (rule literal_0_1)
  qed (simp_all add: f run_simps show_0_45 show_0_1)
qed



text \<open>
  C4. When nothing is stored under the artifact path, \<open>joblib.load\<close> raises
  \<open>FileNotFoundError\<close>; in every state that a process over this storage reaches, a run with
  the button pressed shows the error message, then the sidebar and the patient data
  summary, and nothing after the button: no probability, no badge, no recommendation, no
  progress bar. The predictor is not called and the run ends without an exception.
\<close>

theorem missing_artifact:
  assumes "fs model_path = Missing" and "reachable fs p" and "widget_domain w"
  shows "joblib_load fs model_path = Inl FileNotFoundError \<and>
    (\<exists>df. snd (user_input_features w) = Inr df \<and>
       fst (run fs p \<lparr>widgets = w, pressed = True\<rparr>) =
         \<lparr>rendered =
            page_header @ [ErrorBox not_found_message] @
            SidebarHeader ''Patient Vitals'' # sidebar_widgets @
            [Subheader ''Patient Data Summary'', WriteFrame df, Button ''Assess Risk''],
          predictions = 0, fault = None\<rparr>)"
proof -
  have l: "fst (load_model fs p) = ([ErrorBox not_found_message], Inr PyNone)"
    using load_model_missing(1) [of fs p] reachable_missing [of fs p] assms(1, 2) by blast
  from collected_frame [OF assms(3)] obtain df where
    f: "user_input_features w = (sidebar_widgets, Inr df)" by blast
  have "fst (run fs p \<lparr>widgets = w, pressed = True\<rparr>) =
         \<lparr>rendered =
            page_header @ [ErrorBox not_found_message] @
            SidebarHeader ''Patient Vitals'' # sidebar_widgets @
            [Subheader ''Patient Data Summary'', WriteFrame df, Button ''Assess Risk''],
          predictions = 0, fault = None\<rparr>"
    by (simp add: run_loaded [OF l] script_body_collected [OF f] assess_def)
  moreover have "snd (user_input_features w) = Inr df" by (simp add: f)
  moreover have "joblib_load fs model_path = Inl FileNotFoundError"
    using assms(1) by (simp add: joblib_load_def)
  ultimately show ?thesis by blast
qed

theorem missing_artifact_witness:
  "(\<lambda>path. Missing) model_path = Missing \<and> reachable (\<lambda>path. Missing) fresh_process \<and>
   widget_domain default_selections \<and>
   fault (fst (run (\<lambda>path. Missing) fresh_process
     \<lparr>widgets = default_selections, pressed = True\<rparr>)) = None \<and>
   predictions (fst (run (\<lambda>path. Missing) fresh_process
     \<lparr>widgets = default_selections, pressed = True\<rparr>)) = 0"
proof -
  have r: "reachable (\<lambda>path. Missing) fresh_process" by (rule reachable.start)
  from missing_artifact [OF _ r widget_domain_default] obtain df where
    "fst (run (\<lambda>path. Missing) fresh_process \<lparr>widgets = default_selections, pressed = True\<rparr>) =
         \<lparr>rendered =
            page_header @ [ErrorBox not_found_message] @
            SidebarHeader ''Patient Vitals'' # sidebar_widgets @
            [Subheader ''Patient Data Summary'', WriteFrame df, Button ''Assess Risk''],
          predictions = 0, fault = None\<rparr>"
    by auto
  then show ?thesis using r widget_domain_default by simp
qed

text \<open>
  C5, as stated, fails: an artifact that is found but cannot be deserialised makes
  \<open>joblib.load\<close> raise an exception other than \<open>FileNotFoundError\<close>, which line 21 does
  not catch. The run ends at line 25 with that exception, and the script shows no message
  of its own.
\<close>

theorem unreadable_artifact_unhandled:
  "fst (run (\<lambda>path. Unreadable (OtherException ''UnpicklingError'')) fresh_process
     \<lparr>widgets = default_selections, pressed = True\<rparr>) =
   \<lparr>rendered = page_header, predictions = 0,
    fault = Some (OtherException ''UnpicklingError'')\<rparr>"
  by (simp add: run_def load_model_def load_model_body_def joblib_load_def fresh_process_def)

text \<open>
  C5, amended. A load that raises \<open>FileNotFoundError\<close> is caught at load time: the loader
  returns \<open>None\<close>, the message is on the page, no prediction is attempted, and with values
  the widgets can return the run ends without an exception. Any other exception of the
  load is not caught: it ends the run, with only the page header shown and no prediction.
\<close>

theorem load_failure_policy:
  "(joblib_load fs model_path = Inl FileNotFoundError \<longrightarrow>
      load_model fs fresh_process =
        (([ErrorBox not_found_message], Inr PyNone),
         \<lparr>loads = 1, cache = Some ([ErrorBox not_found_message], PyNone)\<rparr>) \<and>
      ErrorBox not_found_message \<in> set (rendered (fst (run fs fresh_process act))) \<and>
      predictions (fst (run fs fresh_process act)) = 0 \<and>
      (widget_domain (widgets act) \<longrightarrow> fault (fst (run fs fresh_process act)) = None)) \<and>
   (joblib_load fs model_path = Inl e \<and> e \<noteq> FileNotFoundError \<longrightarrow>
      fst (run fs fresh_process act) =
        \<lparr>rendered = page_header, predictions = 0, fault = Some e\<rparr>)"
proof (intro conjI impI)
  assume a: "joblib_load fs model_path = Inl FileNotFoundError"
  show l: "load_model fs fresh_process =
        (([ErrorBox not_found_message], Inr PyNone),
         \<lparr>loads = 1, cache = Some ([ErrorBox not_found_message], PyNone)\<rparr>)"
    using a by (simp add: load_model_def load_model_body_def fresh_process_def)
  then have l': "fst (load_model fs fresh_process) = ([ErrorBox not_found_message], Inr PyNone)"
    by simp
  show "ErrorBox not_found_message \<in> set (rendered (fst (run fs fresh_process act)))"
    by (simp add: run_loaded [OF l'])
  show "predictions (fst (run fs fresh_process act)) = 0"
    by (simp add: run_loaded [OF l'] script_body_def assess_def split: prod.splits sum.splits)
  assume "widget_domain (widgets act)"
  from collected_frame [OF this] obtain df where
    f: "user_input_features (widgets act) = (sidebar_widgets, Inr df)" by blast
  have "fault (script_body PyNone \<lparr>widgets = widgets act, pressed = pressed act\<rparr>) = None"
    by (simp add: script_body_collected [OF f] assess_def)
  moreover have "\<lparr>widgets = widgets act, pressed = pressed act\<rparr> = act"
    by (cases act) simp
  ultimately show "fault (fst (run fs fresh_process act)) = None"
    by (simp add: run_loaded [OF l'])
next
  assume "joblib_load fs model_path = Inl e \<and> e \<noteq> FileNotFoundError"
  then have "fst (load_model fs fresh_process) = ([], Inl e)"
    by (simp add: load_model_def load_model_body_def fresh_process_def)
  from run_load_fault [OF this]
  show "fst (run fs fresh_process act) =
        \<lparr>rendered = page_header, predictions = 0, fault = Some e\<rparr>"
    by simp
qed

theorem load_failure_policy_witness:
  "joblib_load (\<lambda>path. Missing) model_path = Inl FileNotFoundError \<and>
   widget_domain (widgets \<lparr>widgets = default_selections, pressed = True\<rparr>) \<and>
   fault (fst (run (\<lambda>path. Missing) fresh_process
     \<lparr>widgets = default_selections, pressed = True\<rparr>)) = None \<and>
   predictions (fst (run (\<lambda>path. Missing) fresh_process
     \<lparr>widgets = default_selections, pressed = True\<rparr>)) = 0 \<and>
   joblib_load (\<lambda>path. Unreadable (OtherException ''UnpicklingError'')) model_path =
     Inl (OtherException ''UnpicklingError'') \<and>
   OtherException ''UnpicklingError'' \<noteq> FileNotFoundError \<and>
   fault (fst (run (\<lambda>path. Unreadable (OtherException ''UnpicklingError'')) fresh_process
     \<lparr>widgets = default_selections, pressed = True\<rparr>)) =
     Some (OtherException ''UnpicklingError'')"
proof -
  have a: "joblib_load (\<lambda>path. Missing) model_path = Inl FileNotFoundError"
    and b: "joblib_load (\<lambda>path. Unreadable (OtherException ''UnpicklingError'')) model_path =
      Inl (OtherException ''UnpicklingError'')"
    by (simp_all add: joblib_load_def)
  show ?thesis
    using a b widget_domain_default
      load_failure_policy [where fs = "\<lambda>path. Missing"
        and act = "\<lparr>widgets = default_selections, pressed = True\<rparr>"]
      load_failure_policy [where fs = "\<lambda>path. Unreadable (OtherException ''UnpicklingError'')"
        and e = "OtherException ''UnpicklingError''"
        and act = "\<lparr>widgets = default_selections, pressed = True\<rparr>"]
    by simp
qed

text \<open>
  C6. Loading is idempotent in a process: after a call of \<open>load_model\<close> that has returned,
  the next call returns the same object, with the same identity, and leaves the process
  as it is, so \<open>joblib.load\<close> is not called again; a first call on an empty cache has
  called it once.
\<close>

theorem load_idempotent:
  assumes "load_model fs p = ((shown, Inr obj), p')"
  shows "load_model fs p' = ((shown, Inr obj), p') \<and>
    loads (snd (load_model fs p')) = loads p' \<and>
    (cache p = None \<longrightarrow> loads p' = Suc (loads p))"
  using assms
  by (auto simp: load_model_def split: option.splits prod.splits sum.splits)

theorem load_idempotent_witness:
  "load_model (\<lambda>path. Pickled \<lparr>is_truthy = True, predict_proba = (\<lambda>df. Inr [[0, 1]])\<rparr>)
     fresh_process =
     (([], Inr (Object 1 \<lparr>is_truthy = True, predict_proba = (\<lambda>df. Inr [[0, 1]])\<rparr>)),
      \<lparr>loads = 1,
       cache = Some ([], Object 1 \<lparr>is_truthy = True, predict_proba = (\<lambda>df. Inr [[0, 1]])\<rparr>)\<rparr>) \<and>
   load_model (\<lambda>path. Pickled \<lparr>is_truthy = True, predict_proba = (\<lambda>df. Inr [[0, 1]])\<rparr>)
     \<lparr>loads = 1,
      cache = Some ([], Object 1 \<lparr>is_truthy = True, predict_proba = (\<lambda>df. Inr [[0, 1]])\<rparr>)\<rparr> =
     (([], Inr (Object 1 \<lparr>is_truthy = True, predict_proba = (\<lambda>df. Inr [[0, 1]])\<rparr>)),
      \<lparr>loads = 1,
       cache = Some ([], Object 1 \<lparr>is_truthy = True, predict_proba = (\<lambda>df. Inr [[0, 1]])\<rparr>)\<rparr>)"
proof -
  have 1: "load_model (\<lambda>path. Pickled \<lparr>is_truthy = True, predict_proba = (\<lambda>df. Inr [[0, 1]])\<rparr>)
     fresh_process =
     (([], Inr (Object 1 \<lparr>is_truthy = True, predict_proba = (\<lambda>df. Inr [[0, 1]])\<rparr>)),
      \<lparr>loads = 1,
       cache = Some ([], Object 1 \<lparr>is_truthy = True, predict_proba = (\<lambda>df. Inr [[0, 1]])\<rparr>)\<rparr>)"
    by (simp add: load_model_def load_model_body_def joblib_load_def fresh_process_def)
  from load_idempotent [OF 1] 1 show ?thesis by simp
qed

text \<open>
  C7. The codes of the labels: Male is 1 and Female is 0; Yes is 1 and No is 0, for the
  fasting blood sugar as for the exercise angina; every chest pain label and every
  thalassemia label is read as one integer, with no exception; and the code is a function
  of the label alone, so the same label gives the same code.
\<close>

theorem label_codes:
  "sex_code ''Male'' = 1 \<and> sex_code ''Female'' = 0 \<and>
   fbs_code ''Yes'' = 1 \<and> fbs_code ''No'' = 0 \<and>
   exang_code ''Yes'' = 1 \<and> exang_code ''No'' = 0 \<and>
   map sex_code sex_options = [1, 0] \<and>
   map fbs_code no_yes_options = [0, 1] \<and>
   map exang_code no_yes_options = [0, 1] \<and>
   map parse_code cp_options = [Inr 0, Inr 1, Inr 2, Inr 3] \<and>
   map parse_code thal_options = [Inr 1, Inr 2, Inr 3] \<and>
   (l = l' \<longrightarrow>
      sex_code l = sex_code l' \<and> fbs_code l = fbs_code l' \<and> exang_code l = exang_code l' \<and>
      parse_code l = parse_code l')"
  by (simp add: sex_code_def fbs_code_def exang_code_def sex_options_def no_yes_options_def
      cp_options_def thal_options_def parse_cp parse_thal)

theorem label_codes_witness:
  "sex_code ''Male'' = sex_code ''Male'' \<and> parse_code ''Asymptomatic (3)'' = Inr 3 \<and>
   map parse_code thal_options = [Inr 1, Inr 2, Inr 3]"
  using label_codes [of "''Male''" "''Male''"]
  by (simp add: cp_options_def)


text \<open>
  C9. For every combination of values that the widgets can return, the collector returns
  a record with all thirteen fields, each in its domain: sex, fbs and exang are 0 or 1; cp
  is 0 to 3; restecg and slope are 0, 1 or 2; ca is 0 to 3; thal is 1, 2 or 3; age is 20
  to 80, trestbps 80 to 200, chol 100 to 600, thalach 60 to 220, and oldpeak lies between
  the floats \<open>0.0\<close> and \<open>6.2\<close>.
\<close>

theorem record_within_domains:
  assumes "widget_domain w"
  shows "\<exists>df age sex cp trestbps chol fbs restecg thalach exang oldpeak slope ca thal.
    snd (user_input_features w) = Inr df \<and>
    named_row df =
      [(''age'', IntCell age), (''sex'', IntCell sex), (''cp'', IntCell cp),
       (''trestbps'', IntCell trestbps), (''chol'', IntCell chol), (''fbs'', IntCell fbs),
       (''restecg'', IntCell restecg), (''thalach'', IntCell thalach),
       (''exang'', IntCell exang), (''oldpeak'', FloatCell oldpeak),
       (''slope'', IntCell slope), (''ca'', IntCell ca), (''thal'', IntCell thal)] \<and>
    20 \<le> age \<and> age \<le> 80 \<and> sex \<in> {0, 1} \<and> cp \<in> {0, 1, 2, 3} \<and>
    80 \<le> trestbps \<and> trestbps \<le> 200 \<and> 100 \<le> chol \<and> chol \<le> 600 \<and>
    fbs \<in> {0, 1} \<and> restecg \<in> {0, 1, 2} \<and> 60 \<le> thalach \<and> thalach \<le> 220 \<and>
    exang \<in> {0, 1} \<and> 0 \<le> oldpeak \<and> oldpeak \<le> oldpeak_max \<and>
    slope \<in> {0, 1, 2} \<and> ca \<in> {0, 1, 2, 3} \<and> thal \<in> {1, 2, 3} \<and>
    binary64 (62 / 10) = Some oldpeak_max"
proof -
  from collected_frame [OF assms] obtain cp thal where
    cp: "0 \<le> cp" "cp \<le> 3" and thal: "1 \<le> thal" "thal \<le> 3" and
    f: "user_input_features w =
      (sidebar_widgets,
       Inr \<lparr>df_columns =
              [''age'', ''sex'', ''cp'', ''trestbps'', ''chol'', ''fbs'', ''restecg'', ''thalach'',
               ''exang'', ''oldpeak'', ''slope'', ''ca'', ''thal''],
            df_index = [0],
            df_rows =
              [[IntCell (age_w w), IntCell (sex_code (sex_option w)), IntCell cp,
                IntCell (trestbps_w w), IntCell (chol_w w), IntCell (fbs_code (fbs_option w)),
                IntCell (restecg_w w), IntCell (thalach_w w),
                IntCell (exang_code (exang_option w)), FloatCell (oldpeak_w w),
                IntCell (slope_w w), IntCell (ca_w w), IntCell thal]]\<rparr>)"
    by blast
  have cp': "cp \<in> {0, 1, 2, 3}" and thal': "thal \<in> {1, 2, 3}"
    using cp thal by auto
  have ca': "ca_w w \<in> {0, 1, 2, 3}"
    using assms by (auto simp: widget_domain_def)
  have codes: "sex_code (sex_option w) \<in> {0, 1}" "fbs_code (fbs_option w) \<in> {0, 1}"
    "exang_code (exang_option w) \<in> {0, 1}"
    by (simp_all add: sex_code_def fbs_code_def exang_code_def)
  have levels: "restecg_w w \<in> {0, 1, 2}" "slope_w w \<in> {0, 1, 2}"
    using assms by (auto simp: widget_domain_def level_options_def)
  have ranges: "20 \<le> age_w w" "age_w w \<le> 80" "80 \<le> trestbps_w w" "trestbps_w w \<le> 200"
    "100 \<le> chol_w w" "chol_w w \<le> 600" "60 \<le> thalach_w w" "thalach_w w \<le> 220"
    "0 \<le> oldpeak_w w" "oldpeak_w w \<le> oldpeak_max"
    using assms by (simp_all add: widget_domain_def)
  have row: "named_row (\<lparr>df_columns =
              [''age'', ''sex'', ''cp'', ''trestbps'', ''chol'', ''fbs'', ''restecg'', ''thalach'',
               ''exang'', ''oldpeak'', ''slope'', ''ca'', ''thal''],
            df_index = [0],
            df_rows =
              [[IntCell (age_w w), IntCell (sex_code (sex_option w)), IntCell cp,
                IntCell (trestbps_w w), IntCell (chol_w w), IntCell (fbs_code (fbs_option w)),
                IntCell (restecg_w w), IntCell (thalach_w w),
                IntCell (exang_code (exang_option w)), FloatCell (oldpeak_w w),
                IntCell (slope_w w), IntCell (ca_w w), IntCell thal]]\<rparr>) =
      [(''age'', IntCell (age_w w)), (''sex'', IntCell (sex_code (sex_option w))),
       (''cp'', IntCell cp), (''trestbps'', IntCell (trestbps_w w)),
       (''chol'', IntCell (chol_w w)), (''fbs'', IntCell (fbs_code (fbs_option w))),
       (''restecg'', IntCell (restecg_w w)), (''thalach'', IntCell (thalach_w w)),
       (''exang'', IntCell (exang_code (exang_option w))),
       (''oldpeak'', FloatCell (oldpeak_w w)), (''slope'', IntCell (slope_w w)),
       (''ca'', IntCell (ca_w w)), (''thal'', IntCell thal)]"
    by (simp add: named_row_def)
  have s: "snd (user_input_features w) = Inr \<lparr>df_columns =
              [''age'', ''sex'', ''cp'', ''trestbps'', ''chol'', ''fbs'', ''restecg'', ''thalach'',
               ''exang'', ''oldpeak'', ''slope'', ''ca'', ''thal''],
            df_index = [0],
            df_rows =
              [[IntCell (age_w w), IntCell (sex_code (sex_option w)), IntCell cp,
                IntCell (trestbps_w w), IntCell (chol_w w), IntCell (fbs_code (fbs_option w)),
                IntCell (restecg_w w), IntCell (thalach_w w),
                IntCell (exang_code (exang_option w)), FloatCell (oldpeak_w w),
                IntCell (slope_w w), IntCell (ca_w w), IntCell thal]]\<rparr>"
    by (simp add: f)
  show ?thesis
    by (intro exI conjI, rule s, rule row)
      (rule cp' thal' ca' codes levels ranges literal_6_2)+
qed

theorem record_within_domains_witness:
  "widget_domain default_selections \<and>
   (\<exists>df. snd (user_input_features default_selections) = Inr df \<and>
      named_row df =
        [(''age'', IntCell 58), (''sex'', IntCell 1), (''cp'', IntCell 2),
         (''trestbps'', IntCell 120), (''chol'', IntCell 210), (''fbs'', IntCell 0),
         (''restecg'', IntCell 1), (''thalach'', IntCell 130), (''exang'', IntCell 0),
         (''oldpeak'', FloatCell (3 / 2)), (''slope'', IntCell 1), (''ca'', IntCell 0),
         (''thal'', IntCell 2)])"
  using record_within_domains [OF widget_domain_default] widget_domain_default
  by (simp add: default_frame named_row_def)

text \<open>
  C10. When the loader has returned \<open>None\<close>, pressing the button shows nothing under it:
  no metric, no badge, no recommendation, no progress bar, and the predictor is not called.
  The patient data summary with the collected frame is shown in every run in which the
  loader returns, whatever it returns and whether or not the button was pressed.
\<close>

theorem no_model_no_results:
  assumes "widget_domain w"
  shows "\<exists>df. snd (user_input_features w) = Inr df \<and>
    assess PyNone df True = ([], 0, None) \<and>
    script_body PyNone \<lparr>widgets = w, pressed = True\<rparr> =
      \<lparr>rendered =
         SidebarHeader ''Patient Vitals'' # sidebar_widgets @
         [Subheader ''Patient Data Summary'', WriteFrame df, Button ''Assess Risk''],
       predictions = 0, fault = None\<rparr> \<and>
    (\<forall>fs p shown p'. load_model fs p = ((shown, Inr PyNone), p') \<longrightarrow>
       fst (run fs p \<lparr>widgets = w, pressed = True\<rparr>) =
         \<lparr>rendered =
            page_header @ shown @ SidebarHeader ''Patient Vitals'' # sidebar_widgets @
            [Subheader ''Patient Data Summary'', WriteFrame df, Button ''Assess Risk''],
          predictions = 0, fault = None\<rparr>) \<and>
    (\<forall>fs p shown model p' b. load_model fs p = ((shown, Inr model), p') \<longrightarrow>
       (\<exists>results.
          rendered (fst (run fs p \<lparr>widgets = w, pressed = b\<rparr>)) =
            page_header @ shown @ SidebarHeader ''Patient Vitals'' # sidebar_widgets @
            [Subheader ''Patient Data Summary'', WriteFrame df, Button ''Assess Risk''] @
            results))"
proof -
  from collected_frame [OF assms] obtain df where
    f: "user_input_features w = (sidebar_widgets, Inr df)" by blast
  have 1: "snd (user_input_features w) = Inr df" by (simp add: f)
  have 2: "assess PyNone df True = ([], 0, None)" by (simp add: assess_def)
  have 3: "script_body PyNone \<lparr>widgets = w, pressed = True\<rparr> =
      \<lparr>rendered =
         SidebarHeader ''Patient Vitals'' # sidebar_widgets @
         [Subheader ''Patient Data Summary'', WriteFrame df, Button ''Assess Risk''],
       predictions = 0, fault = None\<rparr>"
    by (simp add: script_body_collected [OF f] 2)
  have 4: "fst (run fs p \<lparr>widgets = w, pressed = True\<rparr>) =
         \<lparr>rendered =
            page_header @ shown @ SidebarHeader ''Patient Vitals'' # sidebar_widgets @
            [Subheader ''Patient Data Summary'', WriteFrame df, Button ''Assess Risk''],
          predictions = 0, fault = None\<rparr>"
    if "load_model fs p = ((shown, Inr PyNone), p')" for fs p shown p'
  proof -
    from that have "fst (load_model fs p) = (shown, Inr PyNone)" by simp
    from run_loaded [OF this] show ?thesis by (simp add: 3)
  qed
  have 5: "\<exists>results.
          rendered (fst (run fs p \<lparr>widgets = w, pressed = b\<rparr>)) =
            page_header @ shown @ SidebarHeader ''Patient Vitals'' # sidebar_widgets @
            [Subheader ''Patient Data Summary'', WriteFrame df, Button ''Assess Risk''] @
            results"
    if "load_model fs p = ((shown, Inr model), p')" for fs p shown model p' b
  proof -
    from that have "fst (load_model fs p) = (shown, Inr model)" by simp
    from run_loaded [OF this] show ?thesis
      by (simp add: script_body_collected [OF f])
  qed
  show ?thesis
    using 1 2 3 4 5 by blast
qed

theorem no_model_no_results_witness:
  "widget_domain default_selections \<and>
   predictions (script_body PyNone \<lparr>widgets = default_selections, pressed = True\<rparr>) = 0 \<and>
   fault (script_body PyNone \<lparr>widgets = default_selections, pressed = True\<rparr>) = None"
proof -
  from no_model_no_results [OF widget_domain_default] obtain df where
    "script_body PyNone \<lparr>widgets = default_selections, pressed = True\<rparr> =
      \<lparr>rendered =
         SidebarHeader ''Patient Vitals'' # sidebar_widgets @
         [Subheader ''Patient Data Summary'', WriteFrame df, Button ''Assess Risk''],
       predictions = 0, fault = None\<rparr>"
    by (elim exE conjE)
  then show ?thesis using widget_domain_default by simp
qed

end
